theory Spec2Isabelle
  imports Complex_Main
begin

section \<open>JavaScript numbers\<close>

text \<open>
  A JavaScript \<open>number\<close> is modelled as an exact real or \<open>NaN\<close>. Rounding and overflow
  to an infinity are not modelled. Arithmetic with a \<open>NaN\<close> operand gives \<open>NaN\<close>, and every
  comparison with a \<open>NaN\<close> operand is false, as in the language. A comparison of two
  values that are equal here may go either way in the code's doubles: \<open>lerp(0, 0.2, 0.05)\<close>
  is exactly 0.01 here and a little more with rounding. No theorem below rests on a strict
  comparison of equal values.
\<close>

datatype jsnum = NaN | Fin real

instantiation jsnum :: "{plus, minus, times, inverse, ord}"
begin

fun plus_jsnum :: "jsnum \<Rightarrow> jsnum \<Rightarrow> jsnum" where
  "plus_jsnum (Fin a) (Fin b) = Fin (a + b)"
| "plus_jsnum _ _ = NaN"

fun minus_jsnum :: "jsnum \<Rightarrow> jsnum \<Rightarrow> jsnum" where
  "minus_jsnum (Fin a) (Fin b) = Fin (a - b)"
| "minus_jsnum _ _ = NaN"

fun times_jsnum :: "jsnum \<Rightarrow> jsnum \<Rightarrow> jsnum" where
  "times_jsnum (Fin a) (Fin b) = Fin (a * b)"
| "times_jsnum _ _ = NaN"

text \<open>
  A zero divisor gives an infinity (or \<open>NaN\<close> for \<open>0 / 0\<close>) in the language; the model has
  no infinity and answers \<open>NaN\<close>. Lemmas \<open>emit_divisor_pos\<close> and \<open>js_or_one_nonzero\<close>
  show that the two divisions of the source never have a zero divisor.
\<close>

fun divide_jsnum :: "jsnum \<Rightarrow> jsnum \<Rightarrow> jsnum" where
  "divide_jsnum (Fin a) (Fin b) = (if b = 0 then NaN else Fin (a / b))"
| "divide_jsnum _ _ = NaN"

fun inverse_jsnum :: "jsnum \<Rightarrow> jsnum" where
  "inverse_jsnum (Fin a) = (if a = 0 then NaN else Fin (inverse a))"
| "inverse_jsnum NaN = NaN"

fun less_jsnum :: "jsnum \<Rightarrow> jsnum \<Rightarrow> bool" where
  "less_jsnum (Fin a) (Fin b) = (a < b)"
| "less_jsnum _ _ = False"

fun less_eq_jsnum :: "jsnum \<Rightarrow> jsnum \<Rightarrow> bool" where
  "less_eq_jsnum (Fin a) (Fin b) = (a \<le> b)"
| "less_eq_jsnum _ _ = False"

instance ..

end

fun is_fin :: "jsnum \<Rightarrow> bool" where
  "is_fin (Fin a) = True"
| "is_fin NaN = False"

fun js_sin :: "jsnum \<Rightarrow> jsnum" where
  "js_sin (Fin a) = Fin (sin a)"
| "js_sin NaN = NaN"

fun js_sqrt :: "jsnum \<Rightarrow> jsnum" where
  "js_sqrt (Fin a) = (if a < 0 then NaN else Fin (sqrt a))"
| "js_sqrt NaN = NaN"

text \<open>\<open>a || 1\<close> on numbers: \<open>0\<close> and \<open>NaN\<close> are falsy.\<close>

fun js_or_one :: "jsnum \<Rightarrow> jsnum" where
  "js_or_one (Fin a) = (if a = 0 then Fin 1 else Fin a)"
| "js_or_one NaN = Fin 1"

section \<open>The smoothing primitive\<close>

text \<open>
  \<open>THREE.MathUtils.lerp(x, y, t)\<close> of the three.js library is \<open>(1 - t) * x + t * y\<close>.
\<close>

definition lerp :: "jsnum \<Rightarrow> jsnum \<Rightarrow> jsnum \<Rightarrow> jsnum" where
  "lerp x y t = (Fin 1 - t) * x + t * y"

text \<open>
  The specification's primitive, in its own words: "exponentially approaches target with
  factor f" is \<open>value := value + (target - value) * f\<close>.
\<close>

definition smooth :: "jsnum \<Rightarrow> jsnum \<Rightarrow> jsnum \<Rightarrow> jsnum" where
  "smooth v target f = v + (target - v) * f"

section \<open>Gesture-to-Motion Mapper\<close>

text \<open>The props \<open>handDistance\<close> and \<open>isHandPresent\<close> of \<open>DigitalBracelet\<close>.\<close>

record HandSignal =
  distance :: jsnum
  present :: bool

text \<open>The refs \<open>rotationSpeedRef\<close> and \<open>isScatteredRef\<close>.\<close>

record MotionState =
  rotationSpeed :: jsnum
  scattered :: bool

definition PINCH_THRESHOLD :: jsnum where
  "PINCH_THRESHOLD = Fin 0.06"

definition SCATTER_THRESHOLD :: jsnum where
  "SCATTER_THRESHOLD = Fin 0.18"

text \<open>The interaction logic of the \<open>useFrame\<close> callback of \<open>DigitalBracelet\<close>.\<close>

definition mapper_frame :: "HandSignal \<Rightarrow> MotionState \<Rightarrow> MotionState" where
  "mapper_frame h m =
     (if present h then
        (if SCATTER_THRESHOLD < distance h then
           m\<lparr>scattered := True, rotationSpeed := lerp (rotationSpeed m) (Fin 0) (Fin 0.1)\<rparr>
         else if distance h < PINCH_THRESHOLD then
           m\<lparr>scattered := False, rotationSpeed := lerp (rotationSpeed m) (Fin 2.0) (Fin 0.05)\<rparr>
         else
           m\<lparr>scattered := False, rotationSpeed := lerp (rotationSpeed m) (Fin 0) (Fin 0.05)\<rparr>)
      else
        m\<lparr>scattered := False, rotationSpeed := lerp (rotationSpeed m) (Fin 0.2) (Fin 0.05)\<rparr>)"

text \<open>\<open>useRef(false)\<close> and \<open>useRef(0)\<close>.\<close>

definition init_motion :: MotionState where
  "init_motion = \<lparr>rotationSpeed = Fin 0, scattered = False\<rparr>"

text \<open>One mapper update per frame, over the frames' hand signals in order.\<close>

fun mapper_run :: "HandSignal list \<Rightarrow> MotionState \<Rightarrow> MotionState" where
  "mapper_run [] m = m"
| "mapper_run (h # hs) m = mapper_run hs (mapper_frame h m)"

section \<open>Vectors\<close>

text \<open>
  \<open>THREE.Vector3\<close> and, for rotations, \<open>THREE.Euler\<close>: three numbers. The methods are
  those of the three.js library: \<open>lerp(v, alpha)\<close> adds \<open>(v.x - this.x) * alpha\<close> to each
  component, \<open>length()\<close> is the square root of the sum of squares, and \<open>normalize()\<close> is
  \<open>divideScalar(length() || 1)\<close>, a multiplication by \<open>1 / s\<close>.
\<close>

datatype Vector3 = Vector3 (vx: jsnum) (vy: jsnum) (vz: jsnum)

definition vec_lerp :: "Vector3 \<Rightarrow> Vector3 \<Rightarrow> jsnum \<Rightarrow> Vector3" where
  "vec_lerp p v alpha =
     Vector3 (vx p + (vx v - vx p) * alpha) (vy p + (vy v - vy p) * alpha)
       (vz p + (vz v - vz p) * alpha)"

definition vec_length :: "Vector3 \<Rightarrow> jsnum" where
  "vec_length v = js_sqrt (vx v * vx v + vy v * vy v + vz v * vz v)"

definition vec_normalize :: "Vector3 \<Rightarrow> Vector3" where
  "vec_normalize v =
     (let s = Fin 1 / js_or_one (vec_length v)
      in Vector3 (vx v * s) (vy v * s) (vz v * s))"

fun fin_vec :: "Vector3 \<Rightarrow> bool" where
  "fin_vec (Vector3 a b c) = (is_fin a \<and> is_fin b \<and> is_fin c)"

section \<open>Bead\<close>

text \<open>The arguments of a \<open>useFrame\<close> callback: \<open>state.clock.elapsedTime\<close> and \<open>delta\<close>.\<close>

record Frame =
  elapsedTime :: real
  delta :: real

text \<open>The props of \<open>Bead\<close> that its frame callback reads.\<close>

record BeadProps =
  rotationVal :: jsnum
  isScattered :: bool
  scatterIntensity :: jsnum

text \<open>An entry of \<open>letterConfigs\<close>.\<close>

record LetterConfig =
  char :: char
  pos :: Vector3
  rot :: Vector3

text \<open>
  A child of \<open>lettersRef\<close> (a \<open>Text\<close> object) with the entry of \<open>letterConfigs\<close> at its
  index.
\<close>

record Letter =
  config :: LetterConfig
  position :: Vector3
  rotation :: Vector3

text \<open>
  The mutable parts of a bead: \<open>mounted\<close> says that \<open>groupRef.current\<close> and
  \<open>lettersRef.current\<close> are set, \<open>groupRotation\<close> is \<open>groupRef.current.rotation\<close> and
  \<open>lastEmit\<close> is \<open>lastEmitRef.current\<close>.
\<close>

record Bead =
  mounted :: bool
  letters :: "Letter list"
  groupRotation :: Vector3
  lastEmit :: jsnum

text \<open>The body of \<open>children.forEach((child, i) => ...)\<close>, at time \<open>t\<close>.\<close>

definition letter_frame :: "real \<Rightarrow> BeadProps \<Rightarrow> nat \<Rightarrow> Letter \<Rightarrow> Letter" where
  "letter_frame t p i child =
     (let targetPos = pos (config child) in
      if isScattered p then
        (let dir = vec_normalize targetPos;
             scatterDist = Fin 5 + js_sin (Fin t * Fin 2 + Fin (real i)) * Fin 2
         in child\<lparr>position :=
                    vec_lerp (position child)
                      (Vector3 (vx targetPos + vx dir * scatterDist * scatterIntensity p)
                         (vy targetPos + vy dir * scatterDist * scatterIntensity p)
                         (vz targetPos + vz dir * scatterDist * scatterIntensity p))
                      (Fin 0.1),
                  rotation :=
                    Vector3 (vx (rotation child) + Fin 0.01) (vy (rotation child) + Fin 0.01)
                      (vz (rotation child))\<rparr>)
      else
        child\<lparr>position := vec_lerp (position child) targetPos (Fin 0.15),
               rotation :=
                 Vector3 (lerp (vx (rotation child)) (vx (rot (config child))) (Fin 0.1))
                   (lerp (vy (rotation child)) (vy (rot (config child))) (Fin 0.1))
                   (vz (rotation child))\<rparr>)"

text \<open>
  The frame callback of \<open>Bead\<close>. \<open>worldPos\<close> is what \<open>getWorldPosition\<close> of the library
  returns for the bead's group. The result is the bead after the frame and the argument of
  the call of \<open>onEmitLetter\<close>, if the frame makes one.
\<close>

definition bead_frame ::
  "Frame \<Rightarrow> BeadProps \<Rightarrow> Vector3 \<Rightarrow> Bead \<Rightarrow> Bead \<times> Vector3 option" where
  "bead_frame st p worldPos b =
     (if \<not> mounted b then (b, None)
      else
        (let b1 = b\<lparr>letters :=
                      map (\<lambda>(i, child). letter_frame (elapsedTime st) p i child)
                        (enumerate 0 (letters b))\<rparr>;
             b2 = b1\<lparr>groupRotation :=
                        Vector3 (vx (groupRotation b1) + rotationVal p * Fin 0.1)
                          (vy (groupRotation b1) + rotationVal p * Fin 0.05)
                          (vz (groupRotation b1))\<rparr>
         in if Fin 0.01 < rotationVal p \<and> \<not> isScattered p then
              (let now = Fin (elapsedTime st) in
               if Fin 1.0 / (rotationVal p * Fin 10 + Fin 0.1) < now - lastEmit b2 then
                 (b2\<lparr>lastEmit := now\<rparr>, Some worldPos)
               else (b2, None))
            else (b2, None)))"

text \<open>
  A bead as it is mounted: every \<open>Text\<close> at its configured position and rotation,
  \<open>lastEmitRef = useRef(0)\<close>.
\<close>

definition init_bead :: "LetterConfig list \<Rightarrow> Bead" where
  "init_bead cfgs =
     \<lparr>mounted = True,
      letters = map (\<lambda>c. \<lparr>config = c, position = pos c, rotation = rot c\<rparr>) cfgs,
      groupRotation = Vector3 (Fin 0) (Fin 0) (Fin 0),
      lastEmit = Fin 0\<rparr>"

section \<open>Floating letters\<close>

definition ALPHABET :: string where
  "ALPHABET = ''ABCDEFGHIJKLMNOPQRSTUVWXYZ0123456789''"

text \<open>\<open>rnd(min, max)\<close>, with \<open>u\<close> the value that \<open>Math.random()\<close> returns.\<close>

definition rnd :: "real \<Rightarrow> real \<Rightarrow> real \<Rightarrow> real" where
  "rnd u mn mx = u * (mx - mn) + mn"

text \<open>
  \<open>ALPHABET[Math.floor(u * ALPHABET.length)]\<close>; an index outside the string gives
  \<open>undefined\<close>, here \<open>None\<close>.
\<close>

definition pick_char :: "real \<Rightarrow> char option" where
  "pick_char u =
     (let i = \<lfloor>u * real (length ALPHABET)\<rfloor>
      in if 0 \<le> i \<and> i < int (length ALPHABET) then Some (ALPHABET ! nat i) else None)"

text \<open>The two forms of \<open>id\<close>: \<open>init-i\<close> and \<open>emit-Date.now()-Math.random()\<close>.\<close>

datatype LetterId = InitId nat | EmitId nat real

record FloatingLetterData =
  id_f :: LetterId
  char_f :: "char option"
  x_f :: jsnum
  y_f :: jsnum
  z_f :: jsnum
  speedX :: jsnum
  speedY :: jsnum
  speedZ :: jsnum
  scale :: jsnum

text \<open>
  The values that one call of \<open>handleEmitLetter\<close> draws, in the order of the calls:
  \<open>Date.now()\<close>, then seven times \<open>Math.random()\<close>.
\<close>

record EmitDraws =
  date_now :: nat
  u_id :: real
  u_char :: real
  u_x :: real
  u_y :: real
  u_speedX :: real
  u_speedY :: real
  u_speedZ :: real

text \<open>\<open>prev.slice(-n)\<close>: the last \<open>n\<close> elements, all of them when there are fewer.\<close>

definition slice_last :: "nat \<Rightarrow> 'a list \<Rightarrow> 'a list" where
  "slice_last n xs = drop (length xs - n) xs"

definition newLetter :: "EmitDraws \<Rightarrow> Vector3 \<Rightarrow> FloatingLetterData" where
  "newLetter r origin =
     \<lparr>id_f = EmitId (date_now r) (u_id r),
      char_f = pick_char (u_char r),
      x_f = vx origin + Fin (rnd (u_x r) (- 0.2) 0.2),
      y_f = vy origin + Fin (rnd (u_y r) (- 0.2) 0.2),
      z_f = vz origin,
      speedX = Fin (rnd (u_speedX r) (- 0.05) 0.05),
      speedY = Fin (rnd (u_speedY r) 0.05 0.15),
      speedZ = Fin (rnd (u_speedZ r) (- 0.05) 0.05),
      scale = Fin 1.0\<rparr>"

text \<open>\<open>handleEmitLetter\<close>, as the update of the state \<open>backgroundLetters\<close>.\<close>

definition handleEmitLetter ::
  "EmitDraws \<Rightarrow> Vector3 \<Rightarrow> FloatingLetterData list \<Rightarrow> FloatingLetterData list" where
  "handleEmitLetter r origin prev = slice_last 80 prev @ [newLetter r origin]"

text \<open>The values that one round of the loop of the ambient batch draws.\<close>

record AmbientDraws =
  a_char :: real
  a_x :: real
  a_y :: real
  a_z :: real
  a_speedX :: real
  a_speedY :: real
  a_speedZ :: real
  a_scale :: real

definition ambient_letter :: "nat \<Rightarrow> AmbientDraws \<Rightarrow> FloatingLetterData" where
  "ambient_letter i r =
     \<lparr>id_f = InitId i,
      char_f = pick_char (a_char r),
      x_f = Fin (rnd (a_x r) (- 10) 10),
      y_f = Fin (rnd (a_y r) (- 10) 10),
      z_f = Fin (rnd (a_z r) (- 15) (- 5)),
      speedX = Fin (rnd (a_speedX r) (- 0.02) 0.02),
      speedY = Fin (rnd (a_speedY r) (- 0.02) 0.02),
      speedZ = Fin (rnd (a_speedZ r) (- 0.01) 0.01),
      scale = Fin (rnd (a_scale r) 0.5 1.5)\<rparr>"

text \<open>The batch that the effect hook stores in \<open>backgroundLetters\<close> at mount.\<close>

definition initialBg :: "(nat \<Rightarrow> AmbientDraws) \<Rightarrow> FloatingLetterData list" where
  "initialBg draws = map (\<lambda>i. ambient_letter i (draws i)) [0..<50]"

text \<open>A sequence of emission events, each with its draws and its origin, in order.\<close>

fun emit_all ::
  "(EmitDraws \<times> Vector3) list \<Rightarrow> FloatingLetterData list \<Rightarrow> FloatingLetterData list" where
  "emit_all [] pool = pool"
| "emit_all ((r, origin) # es) pool = emit_all es (handleEmitLetter r origin pool)"

text \<open>
  The component \<open>FloatingLetter\<close>: \<open>fl_mounted\<close> says that \<open>ref.current\<close> is set,
  \<open>fl_pos\<close> is \<open>pos.current\<close>, \<open>fl_position\<close> and \<open>fl_rotation\<close> are the position and
  the rotation of the group.
\<close>

record FloatingLetter =
  data :: FloatingLetterData
  fl_mounted :: bool
  fl_pos :: Vector3
  fl_position :: Vector3
  fl_rotation :: Vector3

definition floating_frame :: "Frame \<Rightarrow> jsnum \<Rightarrow> FloatingLetter \<Rightarrow> FloatingLetter" where
  "floating_frame st globalRotationSpeed l =
     (if \<not> fl_mounted l then l
      else
        (let p = Vector3 (vx (fl_pos l) + speedX (data l)) (vy (fl_pos l) + speedY (data l))
                   (vz (fl_pos l) + speedZ (data l))
         in l\<lparr>fl_pos := p,
              fl_position := p,
              fl_rotation :=
                Vector3 (vx (fl_rotation l) + Fin (delta st) * Fin 0.2)
                  (vy (fl_rotation l) +
                     (Fin (delta st) * Fin 0.2 + globalRotationSpeed * Fin 0.05))
                  (vz (fl_rotation l))\<rparr>))"

section \<open>The bracelet\<close>

definition BEAD_COUNT :: nat where
  "BEAD_COUNT = 12"

definition LETTERS_PER_BEAD :: nat where
  "LETTERS_PER_BEAD = 24"

text \<open>
  The refs of \<open>DigitalBracelet\<close>: the motion state and, when \<open>containerRef.current\<close> is
  set, the ring's \<open>rotation.z\<close>.
\<close>

record Bracelet =
  motion :: MotionState
  container :: "jsnum option"

text \<open>The frame callback of \<open>DigitalBracelet\<close>.\<close>

definition bracelet_frame :: "Frame \<Rightarrow> HandSignal \<Rightarrow> Bracelet \<Rightarrow> Bracelet" where
  "bracelet_frame st h s =
     (let m = mapper_frame h (motion s)
      in \<lparr>motion = m,
          container =
            (case container s of
               None \<Rightarrow> None
             | Some z \<Rightarrow> Some (z + rotationSpeed m * Fin (delta st) * Fin 0.5))\<rparr>)"

text \<open>The props that \<open>DigitalBracelet\<close> hands to every bead when it renders.\<close>

definition bead_props :: "HandSignal \<Rightarrow> MotionState \<Rightarrow> BeadProps" where
  "bead_props h m =
     \<lparr>rotationVal = rotationSpeed m,
      isScattered = scattered m,
      scatterIntensity = (if present h then distance h * Fin 5 else Fin 0)\<rparr>"

text \<open>
  Rendering. The props of the beads are evaluated in the body of \<open>DigitalBracelet\<close>, so
  they are a snapshot of the refs taken when the component renders, and a bead keeps it
  until the next render; the frame callbacks write the refs and do not render. A render
  happens when a prop or a state of \<open>DigitalBracelet\<close> or of \<open>App\<close> changes
  (\<open>setHandDistance\<close>, \<open>setIsHandPresent\<close>, \<open>setLoading\<close>, \<open>setBackgroundLetters\<close>) and is an
  event of the run, as a frame is. \<open>hand\<close> holds the hand props of the latest render,
  which the frame callback of \<open>DigitalBracelet\<close> reads, and \<open>rendered\<close> the props handed to
  the beads by that render.
\<close>

record Scene =
  hand :: HandSignal
  bracelet :: Bracelet
  rendered :: BeadProps
  beads :: "Bead list"

definition render :: "HandSignal \<Rightarrow> Scene \<Rightarrow> Scene" where
  "render h s = s\<lparr>hand := h, rendered := bead_props h (motion (bracelet s))\<rparr>"

text \<open>
  One frame: every bead's callback with the rendered props, and the callback of
  \<open>DigitalBracelet\<close>. \<open>world br i\<close> stands for what \<open>getWorldPosition\<close> returns for bead
  \<open>i\<close> when the bracelet's refs are \<open>br\<close>. The result carries the origins of the frame's
  emissions.
\<close>

definition tick ::
  "(Bracelet \<Rightarrow> nat \<Rightarrow> Vector3) \<Rightarrow> Frame \<Rightarrow> Scene \<Rightarrow> Scene \<times> Vector3 list" where
  "tick world st s =
     (let rs = map (\<lambda>(i, b). bead_frame st (rendered s) (world (bracelet s) i) b)
                 (enumerate 0 (beads s))
      in (s\<lparr>bracelet := bracelet_frame st (hand s) (bracelet s), beads := map fst rs\<rparr>,
          List.map_filter snd rs))"

datatype Event = Render HandSignal | Tick Frame

fun scene_run ::
  "(Bracelet \<Rightarrow> nat \<Rightarrow> Vector3) \<Rightarrow> Event list \<Rightarrow> Scene \<Rightarrow> Scene \<times> Vector3 list" where
  "scene_run world [] s = (s, [])"
| "scene_run world (Render h # evs) s = scene_run world evs (render h s)"
| "scene_run world (Tick st # evs) s =
     (let (s1, es1) = tick world st s;
          (s2, es2) = scene_run world evs s1
      in (s2, es1 @ es2))"

text \<open>The scene after the first render, with the hand props \<open>h\<close> that \<open>App\<close> starts with.\<close>

definition init_scene :: "HandSignal \<Rightarrow> (nat \<Rightarrow> LetterConfig list) \<Rightarrow> Scene" where
  "init_scene h cfgs =
     \<lparr>hand = h,
      bracelet = \<lparr>motion = init_motion, container = Some (Fin 0)\<rparr>,
      rendered = bead_props h init_motion,
      beads = map (\<lambda>i. init_bead (cfgs i)) [0..<BEAD_COUNT]\<rparr>"

text \<open>
  The ring of \<open>DigitalBracelet\<close>: bead \<open>i\<close> sits at angle \<open>2\<pi>i / BEAD_COUNT\<close> on a circle
  of radius \<open>BRACELET_RADIUS\<close>, and the container turns the ring about the z axis.
\<close>

definition BRACELET_RADIUS :: real where
  "BRACELET_RADIUS = 3.5"

definition bead_position :: "nat \<Rightarrow> Vector3" where
  "bead_position i =
     (let angle = (real i / real BEAD_COUNT) * pi * 2
      in Vector3 (Fin (cos angle * BRACELET_RADIUS)) (Fin (sin angle * BRACELET_RADIUS)) (Fin 0))"

fun js_cos :: "jsnum \<Rightarrow> jsnum" where
  "js_cos (Fin a) = Fin (cos a)"
| "js_cos NaN = NaN"

definition ring_world :: "Bracelet \<Rightarrow> nat \<Rightarrow> Vector3" where
  "ring_world br i =
     (let p = bead_position i;
          a = (case container br of None \<Rightarrow> Fin 0 | Some z \<Rightarrow> z)
      in Vector3 (vx p * js_cos a - vy p * js_sin a) (vx p * js_sin a + vy p * js_cos a) (vz p))"


text \<open>
  The specification's measures, in its own words: a vector "moves toward target via the
  smoothing primitive", and a position is "within epsilon" of another by their Euclidean
  distance.
\<close>

definition vec_smooth :: "Vector3 \<Rightarrow> Vector3 \<Rightarrow> jsnum \<Rightarrow> Vector3" where
  "vec_smooth p target f =
     Vector3 (smooth (vx p) (vx target) f) (smooth (vy p) (vy target) f)
       (smooth (vz p) (vz target) f)"


text \<open>
  A floating letter as it is mounted: \<open>pos = useRef(new THREE.Vector3(data.x, data.y,
  data.z))\<close>, the group at the same position, no rotation yet.
\<close>

definition init_floating :: "FloatingLetterData \<Rightarrow> FloatingLetter" where
  "init_floating d =
     \<lparr>data = d, fl_mounted = True,
      fl_pos = Vector3 (x_f d) (y_f d) (z_f d),
      fl_position = Vector3 (x_f d) (y_f d) (z_f d),
      fl_rotation = Vector3 (Fin 0) (Fin 0) (Fin 0)\<rparr>"

text \<open>
  Sample inputs for the concrete runs below: a letter configuration at the point of the
  bead's sphere (radius 0.6) with \<open>theta = 0\<close> and \<open>phi = \<pi> / 2\<close>.
\<close>

definition sample_config :: LetterConfig where
  "sample_config =
     \<lparr>char = CHR ''A'', pos = Vector3 (Fin 0.6) (Fin 0) (Fin 0),
      rot = Vector3 (Fin 0) (Fin 0) (Fin 0)\<rparr>"

section \<open>Properties of the mapper\<close>

lemma lerp_smooth: "lerp x y t = smooth x y t"
proof (cases x; cases y; cases t)
  fix a b c assume "x = Fin a" "y = Fin b" "t = Fin c"
  then show ?thesis by (simp add: lerp_def smooth_def algebra_simps)
qed (simp_all add: lerp_def smooth_def)

text \<open>
  C1. On every frame the mapper follows the four-branch priority policy: no hand, then
  open hand, then pinch, then the intermediate distance; in each branch the rotation
  speed takes one smoothing step toward the branch's target with the branch's factor.
\<close>

theorem mapper_frame_policy:
  "mapper_frame h m =
     (if \<not> present h then
        m\<lparr>scattered := False, rotationSpeed := smooth (rotationSpeed m) (Fin 0.2) (Fin 0.05)\<rparr>
      else if Fin 0.18 < distance h then
        m\<lparr>scattered := True, rotationSpeed := smooth (rotationSpeed m) (Fin 0) (Fin 0.1)\<rparr>
      else if distance h < Fin 0.06 then
        m\<lparr>scattered := False, rotationSpeed := smooth (rotationSpeed m) (Fin 2.0) (Fin 0.05)\<rparr>
      else
        m\<lparr>scattered := False, rotationSpeed := smooth (rotationSpeed m) (Fin 0) (Fin 0.05)\<rparr>)"
  by (simp add: mapper_frame_def lerp_smooth PINCH_THRESHOLD_def SCATTER_THRESHOLD_def)

lemma lerp_Fin: "lerp (Fin a) (Fin b) (Fin c) = Fin ((1 - c) * a + c * b)"
  by (simp add: lerp_def)

lemma lerp_within:
  assumes "0 \<le> a" "a \<le> 2" "0 \<le> b" "b \<le> 2" "0 \<le> c" "c \<le> 1"
  shows "\<exists>r'. lerp (Fin a) (Fin b) (Fin c) = Fin r' \<and> 0 \<le> r' \<and> r' \<le> 2"
proof -
  have lo: "0 \<le> (1 - c) * a + c * b"
    using assms by simp
  have "(1 - c) * a \<le> (1 - c) * 2" "c * b \<le> c * 2"
    using assms by (intro mult_left_mono; simp)+
  then have hi: "(1 - c) * a + c * b \<le> 2"
    by (simp add: algebra_simps)
  show ?thesis
    using lo hi by (simp add: lerp_Fin)
qed

lemma mapper_frame_bounded:
  assumes "rotationSpeed m = Fin r" "0 \<le> r" "r \<le> 2"
  shows "\<exists>r'. rotationSpeed (mapper_frame h m) = Fin r' \<and> 0 \<le> r' \<and> r' \<le> 2"
proof -
  have L: "\<exists>r'. lerp (rotationSpeed m) (Fin b) (Fin c) = Fin r' \<and> 0 \<le> r' \<and> r' \<le> 2"
    if "0 \<le> b" "b \<le> 2" "0 \<le> c" "c \<le> 1" for b c
    using lerp_within [OF assms(2,3) that] assms(1) by simp
  have "\<exists>r'. lerp (rotationSpeed m) (Fin 0) (Fin 0.1) = Fin r' \<and> 0 \<le> r' \<and> r' \<le> 2"
    "\<exists>r'. lerp (rotationSpeed m) (Fin 2.0) (Fin 0.05) = Fin r' \<and> 0 \<le> r' \<and> r' \<le> 2"
    "\<exists>r'. lerp (rotationSpeed m) (Fin 0) (Fin 0.05) = Fin r' \<and> 0 \<le> r' \<and> r' \<le> 2"
    "\<exists>r'. lerp (rotationSpeed m) (Fin 0.2) (Fin 0.05) = Fin r' \<and> 0 \<le> r' \<and> r' \<le> 2"
    by (rule L; simp)+
  then show ?thesis
    by (simp add: mapper_frame_def)
qed

lemma mapper_run_bounded:
  assumes "rotationSpeed m = Fin r" "0 \<le> r" "r \<le> 2"
  shows "\<exists>r'. rotationSpeed (mapper_run hs m) = Fin r' \<and> 0 \<le> r' \<and> r' \<le> 2"
  using assms
proof (induction hs arbitrary: m r)
  case Nil
  then show ?case by simp
next
  case (Cons h hs)
  from mapper_frame_bounded [OF Cons.prems]
  obtain r' where "rotationSpeed (mapper_frame h m) = Fin r'" "0 \<le> r'" "r' \<le> 2"
    by blast
  then show ?case using Cons.IH by simp
qed

text \<open>
  C2. Starting from the initial rotation speed 0, after any sequence of per-frame hand
  signals (any presence flags, any distances, \<open>NaN\<close> included) the rotation speed is a
  real number within \<open>[0, 2]\<close>.
\<close>

theorem rotationSpeed_within_bounds:
  "\<exists>r. rotationSpeed (mapper_run hs init_motion) = Fin r \<and> 0 \<le> r \<and> r \<le> 2"
  by (rule mapper_run_bounded [of init_motion 0]) (simp_all add: init_motion_def)

section \<open>Letter emission\<close>

lemma bead_frame_emit:
  "snd (bead_frame st p w b) =
     (if mounted b \<and> Fin 0.01 < rotationVal p \<and> \<not> isScattered p \<and>
         Fin 1 / (rotationVal p * Fin 10 + Fin 0.1) < Fin (elapsedTime st) - lastEmit b
      then Some w else None)"
  by (simp add: bead_frame_def Let_def)

lemma bead_frame_lastEmit:
  "lastEmit (fst (bead_frame st p w b)) =
     (if mounted b \<and> Fin 0.01 < rotationVal p \<and> \<not> isScattered p \<and>
         Fin 1 / (rotationVal p * Fin 10 + Fin 0.1) < Fin (elapsedTime st) - lastEmit b
      then Fin (elapsedTime st) else lastEmit b)"
  by (simp add: bead_frame_def Let_def)

lemma bead_frame_mounted: "mounted (fst (bead_frame st p w b)) = mounted b"
  by (simp add: bead_frame_def Let_def)

lemma rnd_range: "0 \<le> u \<Longrightarrow> u < 1 \<Longrightarrow> mn < mx \<Longrightarrow> mn \<le> rnd u mn mx \<and> rnd u mn mx < mx"
  unfolding rnd_def
proof
  assume a: "0 \<le> u" "u < 1" "mn < mx"
  then have "0 \<le> u * (mx - mn)" by simp
  then show "mn \<le> u * (mx - mn) + mn" by simp
  from a have "u * (mx - mn) < 1 * (mx - mn)" by (intro mult_strict_right_mono) simp_all
  then show "u * (mx - mn) + mn < mx" by simp
qed

lemma newLetter_last: "last (handleEmitLetter r origin prev) = newLetter r origin"
  by (simp add: handleEmitLetter_def)

lemma js_or_one_nonzero: "\<exists>a. js_or_one v = Fin a \<and> a \<noteq> 0"
  by (cases v) simp_all

lemma emit_divisor_pos:
  assumes "Fin 0.01 < r"
  shows "\<exists>d. r * Fin 10 + Fin 0.1 = Fin d \<and> 0 < d"
proof (cases r)
  case NaN
  then show ?thesis using assms by simp
next
  case (Fin a)
  then have "0 < a * 10 + 0.1" using assms by simp
  then show ?thesis using Fin by simp
qed

text \<open>
  C3. On every frame a bead calls \<open>onEmitLetter\<close> exactly when it is mounted, its rotation
  speed exceeds 0.01, it is not scattered, and the time since its last emission exceeds
  the interval \<open>1 / (rotationSpeed * 10 + 0.1)\<close>; the argument of the call is the bead's
  world position, and the last emission time becomes the current time exactly when the
  frame emits. The letter that \<open>handleEmitLetter\<close> appends has the x of that position plus
  \<open>rnd(-0.2, 0.2)\<close>, that is plus \<open>u * 0.4 - 0.2\<close> for the draw \<open>u\<close>, the y of that position
  plus another such jitter, and the z of that position; for draws in \<open>[0, 1)\<close> each jitter
  lies in \<open>[-0.2, 0.2)\<close>.
\<close>

theorem emission_rule:
  "snd (bead_frame st p w b) =
     (if mounted b \<and> Fin 0.01 < rotationVal p \<and> \<not> isScattered p \<and>
         Fin 1 / (rotationVal p * Fin 10 + Fin 0.1) < Fin (elapsedTime st) - lastEmit b
      then Some w else None) \<and>
   lastEmit (fst (bead_frame st p w b)) =
     (if snd (bead_frame st p w b) = None then lastEmit b else Fin (elapsedTime st)) \<and>
   x_f (last (handleEmitLetter r w prev)) = vx w + Fin (rnd (u_x r) (- 0.2) 0.2) \<and>
   y_f (last (handleEmitLetter r w prev)) = vy w + Fin (rnd (u_y r) (- 0.2) 0.2) \<and>
   z_f (last (handleEmitLetter r w prev)) = vz w \<and>
   rnd (u_x r) (- 0.2) 0.2 = u_x r * 0.4 - 0.2 \<and>
   rnd (u_y r) (- 0.2) 0.2 = u_y r * 0.4 - 0.2 \<and>
   (0 \<le> u_x r \<and> u_x r < 1 \<longrightarrow>
      - 0.2 \<le> rnd (u_x r) (- 0.2) 0.2 \<and> rnd (u_x r) (- 0.2) 0.2 < 0.2) \<and>
   (0 \<le> u_y r \<and> u_y r < 1 \<longrightarrow>
      - 0.2 \<le> rnd (u_y r) (- 0.2) 0.2 \<and> rnd (u_y r) (- 0.2) 0.2 < 0.2)"
proof (intro conjI impI)
  show "snd (bead_frame st p w b) =
     (if mounted b \<and> Fin 0.01 < rotationVal p \<and> \<not> isScattered p \<and>
         Fin 1 / (rotationVal p * Fin 10 + Fin 0.1) < Fin (elapsedTime st) - lastEmit b
      then Some w else None)"
    by (rule bead_frame_emit)
  show "lastEmit (fst (bead_frame st p w b)) =
     (if snd (bead_frame st p w b) = None then lastEmit b else Fin (elapsedTime st))"
    by (simp add: bead_frame_emit bead_frame_lastEmit)
  show "x_f (last (handleEmitLetter r w prev)) = vx w + Fin (rnd (u_x r) (- 0.2) 0.2)"
    by (simp add: newLetter_last newLetter_def)
  show "y_f (last (handleEmitLetter r w prev)) = vy w + Fin (rnd (u_y r) (- 0.2) 0.2)"
    by (simp add: newLetter_last newLetter_def)
  show "z_f (last (handleEmitLetter r w prev)) = vz w"
    by (simp add: newLetter_last newLetter_def)
  show "rnd (u_x r) (- 0.2) 0.2 = u_x r * 0.4 - 0.2"
    by (simp add: rnd_def)
  show "rnd (u_y r) (- 0.2) 0.2 = u_y r * 0.4 - 0.2"
    by (simp add: rnd_def)
next
  assume "0 \<le> u_x r \<and> u_x r < 1"
  then have "- 0.2 \<le> rnd (u_x r) (- 0.2) 0.2 \<and> rnd (u_x r) (- 0.2) 0.2 < 0.2"
    by (intro rnd_range) simp_all
  then show "- 0.2 \<le> rnd (u_x r) (- 0.2) 0.2" "rnd (u_x r) (- 0.2) 0.2 < 0.2"
    by simp_all
next
  assume "0 \<le> u_y r \<and> u_y r < 1"
  then have "- 0.2 \<le> rnd (u_y r) (- 0.2) 0.2 \<and> rnd (u_y r) (- 0.2) 0.2 < 0.2"
    by (intro rnd_range) simp_all
  then show "- 0.2 \<le> rnd (u_y r) (- 0.2) 0.2" "rnd (u_y r) (- 0.2) 0.2 < 0.2"
    by simp_all
qed

theorem emission_rule_witness:
  "snd (bead_frame \<lparr>elapsedTime = 1, delta = 1 / 60\<rparr>
         \<lparr>rotationVal = Fin 2, isScattered = False, scatterIntensity = Fin 0\<rparr>
         (Vector3 (Fin 3.5) (Fin 0) (Fin 0))
         \<lparr>mounted = True, letters = [], groupRotation = Vector3 (Fin 0) (Fin 0) (Fin 0),
          lastEmit = Fin 0\<rparr>) = Some (Vector3 (Fin 3.5) (Fin 0) (Fin 0)) \<and>
   lastEmit (fst (bead_frame \<lparr>elapsedTime = 1, delta = 1 / 60\<rparr>
         \<lparr>rotationVal = Fin 2, isScattered = False, scatterIntensity = Fin 0\<rparr>
         (Vector3 (Fin 3.5) (Fin 0) (Fin 0))
         \<lparr>mounted = True, letters = [], groupRotation = Vector3 (Fin 0) (Fin 0) (Fin 0),
          lastEmit = Fin 0\<rparr>)) = Fin 1 \<and>
   x_f (last (handleEmitLetter
         \<lparr>date_now = 0, u_id = 0, u_char = 0, u_x = 3 / 4, u_y = 1 / 4, u_speedX = 0,
          u_speedY = 0, u_speedZ = 0\<rparr> (Vector3 (Fin 3.5) (Fin 0) (Fin 0)) [])) = Fin 3.6 \<and>
   y_f (last (handleEmitLetter
         \<lparr>date_now = 0, u_id = 0, u_char = 0, u_x = 3 / 4, u_y = 1 / 4, u_speedX = 0,
          u_speedY = 0, u_speedZ = 0\<rparr> (Vector3 (Fin 3.5) (Fin 0) (Fin 0)) [])) = Fin (- 0.1) \<and>
   z_f (last (handleEmitLetter
         \<lparr>date_now = 0, u_id = 0, u_char = 0, u_x = 3 / 4, u_y = 1 / 4, u_speedX = 0,
          u_speedY = 0, u_speedZ = 0\<rparr> (Vector3 (Fin 3.5) (Fin 0) (Fin 0)) [])) = Fin 0 \<and>
   (0 :: real) \<le> 3 / 4 \<and> (3 / 4 :: real) < 1 \<and> (0 :: real) \<le> 1 / 4 \<and> (1 / 4 :: real) < 1 \<and>
   - 0.2 \<le> rnd (3 / 4) (- 0.2) 0.2 \<and> rnd (3 / 4) (- 0.2) 0.2 < 0.2 \<and>
   - 0.2 \<le> rnd (1 / 4) (- 0.2) 0.2 \<and> rnd (1 / 4) (- 0.2) 0.2 < 0.2"
  using emission_rule [of "\<lparr>elapsedTime = 1, delta = 1 / 60\<rparr>"
      "\<lparr>rotationVal = Fin 2, isScattered = False, scatterIntensity = Fin 0\<rparr>"
      "Vector3 (Fin 3.5) (Fin 0) (Fin 0)"
      "\<lparr>mounted = True, letters = [], groupRotation = Vector3 (Fin 0) (Fin 0) (Fin 0),
        lastEmit = Fin 0\<rparr>"
      "\<lparr>date_now = 0, u_id = 0, u_char = 0, u_x = 3 / 4, u_y = 1 / 4, u_speedX = 0,
        u_speedY = 0, u_speedZ = 0\<rparr>" "[]"]
  by simp

section \<open>The floating-letter pool\<close>

lemma length_slice_last: "length (slice_last n xs) = min n (length xs)"
  by (simp add: slice_last_def)

lemma length_handleEmitLetter: "length (handleEmitLetter r origin prev) = min 80 (length prev) + 1"
  by (simp add: handleEmitLetter_def length_slice_last)

lemma length_emit_all: "length pool \<le> 81 \<Longrightarrow> length (emit_all es pool) \<le> 81"
proof (induction es arbitrary: pool)
  case Nil then show ?case by simp
next
  case (Cons e es)
  obtain r origin where e: "e = (r, origin)" by (cases e)
  have "length (handleEmitLetter r origin pool) \<le> 81"
    by (simp add: length_handleEmitLetter)
  then show ?case using Cons.IH e by simp
qed

lemma length_initialBg: "length (initialBg d) = 50"
  by (simp add: initialBg_def)

text \<open>
  C4. After the ambient batch, any sequence of emission events leaves at most 81 letters
  in the pool: every insertion keeps the last 80 letters of the previous pool, dropping
  from the front, and appends the new one.
\<close>

theorem pool_cap:
  "length (emit_all es (initialBg d)) \<le> 81 \<and>
   handleEmitLetter r origin prev = drop (length prev - 80) prev @ [newLetter r origin] \<and>
   length (handleEmitLetter r origin prev) = min 80 (length prev) + 1"
  by (simp add: length_emit_all length_initialBg length_handleEmitLetter)
     (simp add: handleEmitLetter_def slice_last_def)

section \<open>Emission while no hand is present\<close>

lemma mapper_run_append: "mapper_run (hs @ [h]) m = mapper_frame h (mapper_run hs m)"
  by (induction hs arbitrary: m) simp_all

lemma idle_frame:
  assumes "\<not> present h" "rotationSpeed m = Fin r"
  shows "rotationSpeed (mapper_frame h m) = Fin (0.2 + (r - 0.2) * 0.95)"
    and "scattered (mapper_frame h m) = False"
proof -
  have "(1 - 0.05) * r + 0.05 * 0.2 = 0.2 + (r - 0.2) * 0.95"
    by (simp add: field_simps)
  then show "rotationSpeed (mapper_frame h m) = Fin (0.2 + (r - 0.2) * 0.95)"
    using assms by (simp add: mapper_frame_def lerp_Fin)
  show "scattered (mapper_frame h m) = False"
    using assms by (simp add: mapper_frame_def)
qed

lemma idle_run:
  assumes "\<forall>h\<in>set hs. \<not> present h" "rotationSpeed m = Fin r"
  shows "rotationSpeed (mapper_run hs m) = Fin (0.2 + (r - 0.2) * 0.95 ^ length hs)"
  using assms
proof (induction hs arbitrary: m r)
  case Nil
  then show ?case by simp
next
  case (Cons h hs)
  have "rotationSpeed (mapper_frame h m) = Fin (0.2 + (r - 0.2) * 0.95)"
    using Cons.prems by (intro idle_frame) simp_all
  from Cons.IH [OF _ this] Cons.prems(1) show ?case
    by (simp add: algebra_simps)
qed

lemma idle_speed_gt:
  assumes "n \<noteq> 0"
  shows "0.01 < 0.2 * (1 - (0.95 :: real) ^ Suc n)"
proof -
  obtain k where k: "n = Suc k"
    using assms by (cases n) auto
  have "(0.95 :: real) ^ Suc k \<le> 0.95 ^ Suc 0"
    by (intro power_decreasing) simp_all
  then have "(0.95 :: real) ^ Suc n \<le> 0.95 * 0.95"
    using k by simp
  then show ?thesis by simp
qed

lemma map_filter_nonempty:
  "(List.map_filter f xs \<noteq> []) = (\<exists>x\<in>set xs. f x \<noteq> None)"
  by (induction xs) (auto simp: List.map_filter_simps split: option.splits)

lemma tick_refs:
  "bracelet (fst (tick world st s)) = bracelet_frame st (hand s) (bracelet s)"
  "rendered (fst (tick world st s)) = rendered s"
  "hand (fst (tick world st s)) = hand s"
  by (simp_all add: tick_def Let_def)

lemma tick_uniform:
  assumes ne: "beads s \<noteq> []"
    and un: "\<forall>b\<in>set (beads s). mounted b \<and> lastEmit b = l"
    and c: "c = (Fin 0.01 < rotationVal (rendered s) \<and> \<not> isScattered (rendered s) \<and>
              Fin 1 / (rotationVal (rendered s) * Fin 10 + Fin 0.1) < Fin (elapsedTime st) - l)"
  shows "beads (fst (tick world st s)) \<noteq> []"
    and "\<forall>b\<in>set (beads (fst (tick world st s))).
           mounted b \<and> lastEmit b = (if c then Fin (elapsedTime st) else l)"
    and "(snd (tick world st s) \<noteq> []) = c"
proof -
  show "beads (fst (tick world st s)) \<noteq> []"
    using ne by (simp add: tick_def Let_def enumerate_eq_zip)
  show "\<forall>b\<in>set (beads (fst (tick world st s))).
           mounted b \<and> lastEmit b = (if c then Fin (elapsedTime st) else l)"
    using un unfolding tick_def Let_def
    by (auto simp: bead_frame_mounted bead_frame_lastEmit c in_set_enumerate_eq)
  have "enumerate 0 (beads s) \<noteq> []"
    using ne by (simp add: enumerate_eq_zip)
  then obtain i0 b0 where i0: "(i0, b0) \<in> set (enumerate 0 (beads s))"
    by (cases "enumerate 0 (beads s)") auto
  have each: "(snd (bead_frame st (rendered s) w b) \<noteq> None) = c"
    if "(i, b) \<in> set (enumerate 0 (beads s))" for i b w
  proof -
    have "b \<in> set (beads s)"
      using that by (auto simp: in_set_enumerate_eq)
    then have "mounted b" "lastEmit b = l"
      using un by simp_all
    then show ?thesis
      by (simp add: bead_frame_emit c)
  qed
  have "(snd (tick world st s) \<noteq> []) =
      (\<exists>x\<in>set (enumerate 0 (beads s)).
         snd (bead_frame st (rendered s) (world (bracelet s) (fst x)) (snd x)) \<noteq> None)"
    unfolding tick_def Let_def
    by (simp add: map_filter_nonempty split_beta)
  also have "\<dots> = c"
    using i0 each by (metis prod.collapse)
  finally show "(snd (tick world st s) \<noteq> []) = c" .
qed

text \<open>
  The claim C5, that no letter is ever emitted while no hand is present, fails. No hand
  is present from scene start, the frames are one second apart, and the bracelet renders
  once more after the second frame (as it does when \<open>App\<close> calls \<open>setLoading(false)\<close>); the
  beads then hold the rotation speed 0.0195 and emit on the fourth frame.
\<close>

theorem idle_emits:
  "snd (scene_run ring_world
         [Tick \<lparr>elapsedTime = 1, delta = 1\<rparr>,
          Tick \<lparr>elapsedTime = 2, delta = 1\<rparr>,
          Render \<lparr>distance = Fin 0.1, present = False\<rparr>,
          Tick \<lparr>elapsedTime = 3, delta = 1\<rparr>,
          Tick \<lparr>elapsedTime = 4, delta = 1\<rparr>]
         (init_scene \<lparr>distance = Fin 0.1, present = False\<rparr>
            (\<lambda>i. replicate LETTERS_PER_BEAD sample_config))) \<noteq> []"
proof -
  define idle where "idle = \<lparr>distance = Fin 0.1, present = False\<rparr>"
  define f1 where "f1 = \<lparr>elapsedTime = 1, delta = 1\<rparr>"
  define f2 where "f2 = \<lparr>elapsedTime = 2, delta = 1\<rparr>"
  define f3 where "f3 = \<lparr>elapsedTime = 3, delta = 1\<rparr>"
  define f4 where "f4 = \<lparr>elapsedTime = 4, delta = 1\<rparr>"
  define s0 where "s0 = init_scene idle (\<lambda>i. replicate LETTERS_PER_BEAD sample_config)"
  define s1 where "s1 = fst (tick ring_world f1 s0)"
  define s2 where "s2 = fst (tick ring_world f2 s1)"
  define s3 where "s3 = render idle s2"
  define s4 where "s4 = fst (tick ring_world f3 s3)"
  have run: "snd (scene_run ring_world [Tick f1, Tick f2, Render idle, Tick f3, Tick f4] s0) =
      snd (tick ring_world f1 s0) @ snd (tick ring_world f2 s1) @
      snd (tick ring_world f3 s3) @ snd (tick ring_world f4 s4)"
    by (simp add: split_beta Let_def s1_def s2_def s3_def s4_def)
  have h0: "hand s0 = idle" and r0: "rendered s0 =
      \<lparr>rotationVal = Fin 0, isScattered = False, scatterIntensity = Fin 0\<rparr>"
    and m0: "motion (bracelet s0) = \<lparr>rotationSpeed = Fin 0, scattered = False\<rparr>"
    by (simp_all add: s0_def init_scene_def init_motion_def bead_props_def idle_def)
  have h1: "hand s1 = idle" and r1: "rendered s1 = rendered s0"
    by (simp_all add: s1_def tick_refs h0)
  have m1: "motion (bracelet s1) = \<lparr>rotationSpeed = Fin 0.01, scattered = False\<rparr>"
    by (simp add: s1_def tick_refs h0 idle_def bracelet_frame_def Let_def mapper_frame_def m0
        lerp_Fin)
  have m2: "motion (bracelet s2) = \<lparr>rotationSpeed = Fin 0.0195, scattered = False\<rparr>"
    by (simp add: s2_def tick_refs h1 idle_def bracelet_frame_def Let_def mapper_frame_def m1
        lerp_Fin)
  have r3: "rendered s3 =
      \<lparr>rotationVal = Fin 0.0195, isScattered = False, scatterIntensity = Fin 0\<rparr>"
    by (simp add: s3_def render_def bead_props_def m2 idle_def)
  have r4: "rendered s4 = rendered s3"
    by (simp add: s4_def tick_refs)
  have ne0: "beads s0 \<noteq> []"
    by (simp add: s0_def init_scene_def BEAD_COUNT_def)
  have un0: "\<forall>b\<in>set (beads s0). mounted b \<and> lastEmit b = Fin 0"
    by (simp add: s0_def init_scene_def init_bead_def)
  have ne1: "beads s1 \<noteq> []"
    unfolding s1_def by (rule tick_uniform(1) [OF ne0 un0 refl])
  have un1: "\<forall>b\<in>set (beads s1). mounted b \<and> lastEmit b = Fin 0"
    using tick_uniform(2) [OF ne0 un0 refl, where st = f1 and world = ring_world]
    by (simp add: s1_def r0)
  have ne2: "beads s2 \<noteq> []"
    unfolding s2_def by (rule tick_uniform(1) [OF ne1 un1 refl])
  have un2: "\<forall>b\<in>set (beads s2). mounted b \<and> lastEmit b = Fin 0"
    using tick_uniform(2) [OF ne1 un1 refl, where st = f2 and world = ring_world]
    by (simp add: s2_def r1 r0)
  have ne3: "beads s3 \<noteq> []" and un3: "\<forall>b\<in>set (beads s3). mounted b \<and> lastEmit b = Fin 0"
    using ne2 un2 by (simp_all add: s3_def render_def)
  have ne4: "beads s4 \<noteq> []"
    unfolding s4_def by (rule tick_uniform(1) [OF ne3 un3 refl])
  have un4: "\<forall>b\<in>set (beads s4). mounted b \<and> lastEmit b = Fin 0"
    using tick_uniform(2) [OF ne3 un3 refl, where st = f3 and world = ring_world]
    by (simp add: s4_def r3 f3_def)
  have "snd (tick ring_world f4 s4) \<noteq> []"
    using tick_uniform(3) [OF ne4 un4 refl, where st = f4 and world = ring_world]
    by (simp add: r4 r3 f4_def)
  then show ?thesis
    using run by (simp add: f1_def f2_def f3_def f4_def idle_def s0_def)
qed

text \<open>
  C5, amended. With no hand present on every frame from scene start, the rotation speed
  after \<open>n\<close> frames is \<open>0.2 * (1 - 0.95 ^ n)\<close>. A bead emits no letter while it holds the
  props of the first render, whose rotation speed is 0. A bead whose props are rendered
  after two or more frames holds a rotation speed above 0.01 and is not scattered, and it
  emits exactly on the frames at which it is mounted and the time since its last emission
  exceeds \<open>1 / (rotationSpeed * 10 + 0.1)\<close>.
\<close>

theorem idle_emission:
  assumes "\<forall>h\<in>set hs. \<not> present h" and "\<not> present h" and "2 \<le> length hs"
    and "motion (bracelet s) = mapper_run hs init_motion"
  shows "rendered (render h s) =
           \<lparr>rotationVal = Fin (0.2 * (1 - 0.95 ^ length hs)), isScattered = False,
            scatterIntensity = Fin 0\<rparr> \<and>
         0.01 < 0.2 * (1 - (0.95 :: real) ^ length hs) \<and>
         snd (bead_frame st (rendered (render h s)) w b) =
           (if mounted b \<and>
               Fin (1 / (0.2 * (1 - 0.95 ^ length hs) * 10 + 0.1))
                 < Fin (elapsedTime st) - lastEmit b
            then Some w else None) \<and>
         snd (bead_frame st (rendered (init_scene h cfgs)) w b) = None"
proof -
  define q :: real where "q = 0.95 ^ length hs"
  obtain k where k: "length hs = Suc k" "k \<noteq> 0"
    using assms(3) by (cases "length hs") auto
  have "rotationSpeed (mapper_run hs init_motion) = Fin (0.2 + (0 - 0.2) * 0.95 ^ length hs)"
    using assms(1) by (intro idle_run) (simp_all add: init_motion_def)
  moreover have "0.2 + (0 - 0.2) * 0.95 ^ length hs = 0.2 * (1 - q)"
    unfolding q_def by (simp add: algebra_simps)
  ultimately have speed: "rotationSpeed (mapper_run hs init_motion) = Fin (0.2 * (1 - q))"
    by simp
  obtain h' hs' where hs: "hs = hs' @ [h']"
    using k by (cases hs rule: rev_cases) auto
  then have "\<not> present h'"
    using assms(1) by simp
  then have sc: "scattered (mapper_run hs init_motion) = False"
    unfolding hs mapper_run_append by (simp add: mapper_frame_def)
  have gt: "0.01 < 0.2 * (1 - q)"
    unfolding q_def using idle_speed_gt [OF k(2)] k(1) by simp
  then have "0 < 1 - q"
    by simp
  then have "0 < 0.2 * (1 - q) * 10"
    by simp
  then have pos: "0.2 * (1 - q) * 10 + 0.1 \<noteq> 0"
    by linarith
  have rd: "rendered (render h s) =
      \<lparr>rotationVal = Fin (0.2 * (1 - q)), isScattered = False, scatterIntensity = Fin 0\<rparr>"
    using assms(2,4) by (simp add: render_def bead_props_def speed sc)
  have lt: "Fin 0.01 < Fin (0.2 * (1 - q))"
    using gt by simp
  have dv: "Fin 1 / (Fin (0.2 * (1 - q)) * Fin 10 + Fin 0.1) = Fin (1 / (0.2 * (1 - q) * 10 + 0.1))"
    using pos by simp
  have em: "snd (bead_frame st (rendered (render h s)) w b) =
           (if mounted b \<and>
               Fin (1 / (0.2 * (1 - q) * 10 + 0.1)) < Fin (elapsedTime st) - lastEmit b
            then Some w else None)"
    unfolding bead_frame_emit rd
    by (simp only: BeadProps.simps lt dv simp_thms)
  have no: "snd (bead_frame st (rendered (init_scene h cfgs)) w b) = None"
    by (simp add: bead_frame_emit init_scene_def bead_props_def init_motion_def)
  show ?thesis
    using rd gt em no unfolding q_def by blast
qed

theorem idle_emission_witness:
  "\<not> present \<lparr>distance = Fin 0.1, present = False\<rparr> \<and>
   (2 :: nat) \<le> length [\<lparr>distance = Fin 0.1, present = False\<rparr>,
      \<lparr>distance = Fin 0.1, present = False\<rparr>] \<and>
   rendered (render \<lparr>distance = Fin 0.1, present = False\<rparr>
      \<lparr>hand = \<lparr>distance = Fin 0.1, present = False\<rparr>,
       bracelet = \<lparr>motion = \<lparr>rotationSpeed = Fin 0.0195, scattered = False\<rparr>,
                  container = Some (Fin 0)\<rparr>,
       rendered = \<lparr>rotationVal = Fin 0, isScattered = False, scatterIntensity = Fin 0\<rparr>,
       beads = []\<rparr>) =
     \<lparr>rotationVal = Fin 0.0195, isScattered = False, scatterIntensity = Fin 0\<rparr> \<and>
   snd (bead_frame \<lparr>elapsedTime = 4, delta = 1\<rparr>
        (rendered (render \<lparr>distance = Fin 0.1, present = False\<rparr>
          \<lparr>hand = \<lparr>distance = Fin 0.1, present = False\<rparr>,
           bracelet = \<lparr>motion = \<lparr>rotationSpeed = Fin 0.0195, scattered = False\<rparr>,
                      container = Some (Fin 0)\<rparr>,
           rendered = \<lparr>rotationVal = Fin 0, isScattered = False, scatterIntensity = Fin 0\<rparr>,
           beads = []\<rparr>))
        (Vector3 (Fin 3.5) (Fin 0) (Fin 0))
        \<lparr>mounted = True, letters = [], groupRotation = Vector3 (Fin 0) (Fin 0) (Fin 0),
          lastEmit = Fin 0\<rparr>) = Some (Vector3 (Fin 3.5) (Fin 0) (Fin 0))"
proof -
  let ?idle = "\<lparr>distance = Fin 0.1, present = False\<rparr>"
  let ?s = "\<lparr>hand = ?idle,
       bracelet = \<lparr>motion = \<lparr>rotationSpeed = Fin 0.0195, scattered = False\<rparr>,
                  container = Some (Fin 0)\<rparr>,
       rendered = \<lparr>rotationVal = Fin 0, isScattered = False, scatterIntensity = Fin 0\<rparr>,
       beads = []\<rparr>"
  have a1: "\<forall>h\<in>set [?idle, ?idle]. \<not> present h" by simp
  have a2: "\<not> present ?idle" by simp
  have a3: "2 \<le> length [?idle, ?idle]" by simp
  have a4: "motion (bracelet ?s) = mapper_run [?idle, ?idle] init_motion"
    by (simp add: mapper_frame_def init_motion_def lerp_Fin)
  from idle_emission [OF a1 a2 a3 a4, of "\<lparr>elapsedTime = 4, delta = 1\<rparr>"
      "Vector3 (Fin 3.5) (Fin 0) (Fin 0)"
      "\<lparr>mounted = True, letters = [], groupRotation = Vector3 (Fin 0) (Fin 0) (Fin 0),
        lastEmit = Fin 0\<rparr>" "\<lambda>i. []"]
  show ?thesis by (elim conjE) simp
qed

section \<open>Malformed distances\<close>

text \<open>
  The claim C6, that a \<open>NaN\<close> or negative distance is clamped or ignored and no quantity
  becomes \<open>NaN\<close>, fails: the scatter intensity handed to the beads is \<open>NaN\<close> for a \<open>NaN\<close>
  distance and \<open>-5\<close> for the distance \<open>-1\<close>.
\<close>

theorem malformed_distance_propagates:
  "scatterIntensity (bead_props \<lparr>distance = NaN, present = True\<rparr>
      (mapper_frame \<lparr>distance = NaN, present = True\<rparr> init_motion)) = NaN \<and>
   scatterIntensity (bead_props \<lparr>distance = Fin (- 1), present = True\<rparr>
      (mapper_frame \<lparr>distance = Fin (- 1), present = True\<rparr> init_motion)) = Fin (- 5)"
  by (simp add: bead_props_def)

lemma lerp_is_fin: "is_fin x \<Longrightarrow> is_fin (lerp x (Fin b) (Fin c))"
  by (cases x) (simp_all add: lerp_Fin)

lemma mapper_frame_is_fin: "is_fin (rotationSpeed m) \<Longrightarrow> is_fin (rotationSpeed (mapper_frame h m))"
  by (simp add: mapper_frame_def lerp_is_fin)

lemma reform_position:
  assumes "\<not> isScattered p"
  shows "position (letter_frame t p i c) = vec_lerp (position c) (pos (config c)) (Fin 0.15)"
  using assms by (simp add: letter_frame_def Let_def)

lemma vec_lerp_fin: "fin_vec a \<Longrightarrow> fin_vec b \<Longrightarrow> fin_vec (vec_lerp a b (Fin f))"
  by (cases a; cases b) (auto simp: vec_lerp_def elim!: is_fin.elims)

lemma jsnum_nan:
  "x * NaN = NaN" "NaN * x = NaN" "x + NaN = NaN" "NaN + x = NaN" "x - NaN = NaN"
  "NaN - x = NaN"
  by (cases x; simp)+

lemma scatter_nan_position:
  assumes "isScattered p" "scatterIntensity p = NaN"
  shows "position (letter_frame t p i c) = Vector3 NaN NaN NaN"
  using assms by (simp add: letter_frame_def Let_def vec_lerp_def jsnum_nan)

lemma nan_position_stays:
  assumes "position c = Vector3 NaN NaN NaN"
  shows "position (letter_frame t p i c) = Vector3 NaN NaN NaN"
  using assms by (simp add: letter_frame_def Let_def vec_lerp_def jsnum_nan)

text \<open>
  C6, amended. With a hand present and a \<open>NaN\<close> or negative distance nothing is clamped
  or ignored. The mapper sets \<open>scattered\<close> to false and a rotation speed that is a number
  stays a number. The scatter intensity of a render with that distance is the distance
  times 5 (\<open>NaN\<close> for \<open>NaN\<close>). A bead rendered while the ref \<open>scattered\<close> is false steps its
  letters toward their rest positions without the intensity, so a position made of numbers
  stays so; a bead rendered while the ref is true, as an earlier open-hand frame leaves
  it, with a \<open>NaN\<close> distance gets the position \<open>(NaN, NaN, NaN)\<close> for every letter, and
  such a position stays on every later frame, whatever the props.
\<close>

theorem malformed_distance:
  assumes "present h" and "distance h = NaN \<or> distance h < Fin 0"
  shows "scattered (mapper_frame h m) = False \<and>
         (is_fin (rotationSpeed m) \<longrightarrow> is_fin (rotationSpeed (mapper_frame h m))) \<and>
         scatterIntensity (bead_props h m') = distance h * Fin 5 \<and>
         (distance h = NaN \<longrightarrow> scatterIntensity (bead_props h m') = NaN) \<and>
         (\<not> scattered m' \<and> fin_vec (position c) \<and> fin_vec (pos (config c)) \<longrightarrow>
            fin_vec (position (letter_frame t (bead_props h m') i c))) \<and>
         (scattered m' \<and> distance h = NaN \<longrightarrow>
            position (letter_frame t (bead_props h m') i c) = Vector3 NaN NaN NaN) \<and>
         (position c = Vector3 NaN NaN NaN \<longrightarrow>
            position (letter_frame t p i c) = Vector3 NaN NaN NaN)"
proof -
  have sc: "scattered (mapper_frame h m) = False"
  proof (cases "distance h")
    case NaN
    then show ?thesis by (simp add: mapper_frame_def SCATTER_THRESHOLD_def)
  next
    case (Fin d)
    then have "d < 0" using assms(2) by simp
    then show ?thesis using Fin by (simp add: mapper_frame_def SCATTER_THRESHOLD_def)
  qed
  have int: "scatterIntensity (bead_props h m') = distance h * Fin 5"
    using assms(1) by (simp add: bead_props_def)
  then have nan: "scatterIntensity (bead_props h m') = NaN" if "distance h = NaN"
    using that by simp
  have reform: "fin_vec (position (letter_frame t (bead_props h m') i c))"
    if "\<not> scattered m'" "fin_vec (position c)" "fin_vec (pos (config c))"
  proof -
    have "\<not> isScattered (bead_props h m')"
      using that(1) by (simp add: bead_props_def)
    then show ?thesis
      using that(2,3) by (simp add: reform_position vec_lerp_fin)
  qed
  have poison: "position (letter_frame t (bead_props h m') i c) = Vector3 NaN NaN NaN"
    if "scattered m'" "distance h = NaN"
  proof -
    have "isScattered (bead_props h m')"
      using that(1) by (simp add: bead_props_def)
    then show ?thesis
      using nan [OF that(2)] by (rule scatter_nan_position)
  qed
  show ?thesis
    using sc int nan reform poison nan_position_stays [of c t p i] mapper_frame_is_fin [of m h]
    by blast
qed

theorem malformed_distance_witness:
  "present \<lparr>distance = NaN, present = True\<rparr> \<and>
   distance \<lparr>distance = NaN, present = True\<rparr> = NaN \<and>
   scattered (mapper_frame \<lparr>distance = NaN, present = True\<rparr> init_motion) = False \<and>
   is_fin (rotationSpeed init_motion) \<and>
   is_fin (rotationSpeed (mapper_frame \<lparr>distance = NaN, present = True\<rparr> init_motion)) \<and>
   scattered (mapper_frame \<lparr>distance = Fin 0.2, present = True\<rparr> init_motion) \<and>
   scatterIntensity (bead_props \<lparr>distance = NaN, present = True\<rparr>
      (mapper_frame \<lparr>distance = Fin 0.2, present = True\<rparr> init_motion)) = NaN \<and>
   position (letter_frame 0
      (bead_props \<lparr>distance = NaN, present = True\<rparr>
         (mapper_frame \<lparr>distance = Fin 0.2, present = True\<rparr> init_motion)) 0
      \<lparr>config = sample_config, position = Vector3 (Fin 0.6) (Fin 0) (Fin 0),
        rotation = Vector3 (Fin 0) (Fin 0) (Fin 0)\<rparr>) = Vector3 NaN NaN NaN"
proof -
  have a1: "present \<lparr>distance = NaN, present = True\<rparr>" by simp
  have a2: "distance \<lparr>distance = NaN, present = True\<rparr> = NaN \<or>
      distance \<lparr>distance = NaN, present = True\<rparr> < Fin 0" by simp
  have sc: "scattered (mapper_frame \<lparr>distance = Fin 0.2, present = True\<rparr> init_motion)"
    by (simp add: mapper_frame_def SCATTER_THRESHOLD_def)
  have fin: "is_fin (rotationSpeed init_motion)"
    by (simp add: init_motion_def)
  from malformed_distance [OF a1 a2, of init_motion
      "mapper_frame \<lparr>distance = Fin 0.2, present = True\<rparr> init_motion"
      "\<lparr>config = sample_config, position = Vector3 (Fin 0.6) (Fin 0) (Fin 0),
        rotation = Vector3 (Fin 0) (Fin 0) (Fin 0)\<rparr>" 0 0] sc fin
  show ?thesis by simp
qed

section \<open>Independence of the distance while no hand is present\<close>

lemma absent_frame: "\<not> present h \<Longrightarrow> \<not> present h' \<Longrightarrow> mapper_frame h m = mapper_frame h' m"
  by (simp add: mapper_frame_def)

lemma absent_run:
  assumes "length hs = length hs'" "\<forall>h\<in>set hs. \<not> present h" "\<forall>h\<in>set hs'. \<not> present h"
  shows "mapper_run hs m = mapper_run hs' m"
  using assms
proof (induction hs hs' arbitrary: m rule: list_induct2)
  case Nil
  then show ?case by simp
next
  case (Cons h hs h' hs')
  then have "mapper_frame h m = mapper_frame h' m"
    by (intro absent_frame) simp_all
  then show ?case using Cons by simp
qed

text \<open>
  C10. Two runs of the mapper from the same motion state, over equally many frames that
  all have no hand present, end in the same motion state whatever distances the frames
  carry (\<open>NaN\<close> and negative ones included), and the scatter intensity handed to the beads
  is 0 on every such frame.
\<close>

theorem absent_hand_ignores_distance:
  assumes "length hs = length hs'" "\<forall>h\<in>set hs. \<not> present h" "\<forall>h\<in>set hs'. \<not> present h"
  shows "mapper_run hs m = mapper_run hs' m \<and>
         (\<forall>h\<in>set hs \<union> set hs'. \<forall>m'. scatterIntensity (bead_props h m') = Fin 0)"
  using absent_run [OF assms] assms(2,3) by (auto simp: bead_props_def)

theorem absent_hand_ignores_distance_witness:
  "\<not> present \<lparr>distance = NaN, present = False\<rparr> \<and>
   \<not> present \<lparr>distance = Fin (- 3), present = False\<rparr> \<and>
   mapper_run [\<lparr>distance = NaN, present = False\<rparr>] init_motion =
     mapper_run [\<lparr>distance = Fin (- 3), present = False\<rparr>] init_motion \<and>
   scatterIntensity (bead_props \<lparr>distance = NaN, present = False\<rparr> init_motion) = Fin 0"
  using absent_hand_ignores_distance [of "[\<lparr>distance = NaN, present = False\<rparr>]"
      "[\<lparr>distance = Fin (- 3), present = False\<rparr>]" init_motion]
  by simp

section \<open>Uses of the frame's delta time\<close>

text \<open>
  The claim C7, that only the ring's rotation scales by the frame's delta time, fails:
  the rotation of a floating letter after one frame differs between a frame of 1/60 s
  and a frame of 1/30 s at the same clock time.
\<close>

theorem floating_rotation_uses_delta:
  "fl_rotation (floating_frame \<lparr>elapsedTime = 1, delta = 1 / 60\<rparr> (Fin 0)
      (init_floating (newLetter
         \<lparr>date_now = 0, u_id = 0, u_char = 0, u_x = 0, u_y = 0, u_speedX = 0,
          u_speedY = 0, u_speedZ = 0\<rparr> (Vector3 (Fin 3.5) (Fin 0) (Fin 0))))) \<noteq>
   fl_rotation (floating_frame \<lparr>elapsedTime = 1, delta = 1 / 30\<rparr> (Fin 0)
      (init_floating (newLetter
         \<lparr>date_now = 0, u_id = 0, u_char = 0, u_x = 0, u_y = 0, u_speedX = 0,
          u_speedY = 0, u_speedZ = 0\<rparr> (Vector3 (Fin 3.5) (Fin 0) (Fin 0)))))"
  by (simp add: floating_frame_def init_floating_def Let_def)

lemma bead_frame_delta:
  "elapsedTime st = elapsedTime st' \<Longrightarrow> bead_frame st p w b = bead_frame st' p w b"
  unfolding bead_frame_def Let_def by simp

lemma ring_rotation:
  "container (bracelet_frame st h s) =
     map_option (\<lambda>z. z + rotationSpeed (mapper_frame h (motion s)) * Fin (delta st) * Fin 0.5)
       (container s)"
  by (cases "container s") (simp_all add: bracelet_frame_def Let_def)

lemma floating_rotation:
  "fl_mounted l \<Longrightarrow>
     fl_rotation (floating_frame st g l) =
        Vector3 (vx (fl_rotation l) + Fin (delta st) * Fin 0.2)
          (vy (fl_rotation l) + (Fin (delta st) * Fin 0.2 + g * Fin 0.05))
          (vz (fl_rotation l))"
  by (simp add: floating_frame_def Let_def)

lemma floating_drift:
  "fl_pos (floating_frame st g l) = fl_pos (floating_frame st' g l)"
  "fl_position (floating_frame st g l) = fl_position (floating_frame st' g l)"
  by (simp_all add: floating_frame_def Let_def)

lemma mapper_no_frame: "motion (bracelet_frame st h s) = motion (bracelet_frame st' h s)"
  by (simp add: bracelet_frame_def Let_def)

text \<open>
  C7, amended. Two per-frame updates scale by the frame's delta time: the ring's
  rotation, which grows by \<open>rotationSpeed * delta * 0.5\<close>, and the rotation of a floating
  letter, which grows by \<open>delta * 0.2\<close> on x and by \<open>delta * 0.2 + rotationSpeed * 0.05\<close> on
  y. The bead's frame (letter smoothing, body rotation, emission), the mapper and the
  drift of a floating letter do not depend on the delta time.
\<close>

theorem delta_time_use:
  "container (bracelet_frame st h s) =
     map_option (\<lambda>z. z + rotationSpeed (mapper_frame h (motion s)) * Fin (delta st) * Fin 0.5)
       (container s) \<and>
   (fl_mounted l \<longrightarrow>
      fl_rotation (floating_frame st g l) =
        Vector3 (vx (fl_rotation l) + Fin (delta st) * Fin 0.2)
          (vy (fl_rotation l) + (Fin (delta st) * Fin 0.2 + g * Fin 0.05))
          (vz (fl_rotation l))) \<and>
   (elapsedTime st = elapsedTime st' \<longrightarrow> bead_frame st p w b = bead_frame st' p w b) \<and>
   motion (bracelet_frame st h s) = motion (bracelet_frame st' h s) \<and>
   fl_pos (floating_frame st g l) = fl_pos (floating_frame st' g l) \<and>
   fl_position (floating_frame st g l) = fl_position (floating_frame st' g l)"
  using ring_rotation [of st h s] floating_rotation [of l st g] bead_frame_delta [of st st' p w b]
    mapper_no_frame [of st h s st'] floating_drift [of st g l st']
  by blast

theorem delta_time_use_witness:
  "container (bracelet_frame \<lparr>elapsedTime = 1, delta = 1 / 60\<rparr>
      \<lparr>distance = Fin 0.03, present = True\<rparr>
      \<lparr>motion = \<lparr>rotationSpeed = Fin 2, scattered = False\<rparr>, container = Some (Fin 0)\<rparr>) =
     Some (Fin (1 / 60)) \<and>
   fl_mounted (init_floating (ambient_letter 0
      \<lparr>a_char = 0, a_x = 0, a_y = 0, a_z = 0, a_speedX = 0, a_speedY = 0, a_speedZ = 0,
       a_scale = 0\<rparr>)) \<and>
   fl_rotation (floating_frame \<lparr>elapsedTime = 1, delta = 1 / 60\<rparr> (Fin 2)
      (init_floating (ambient_letter 0
        \<lparr>a_char = 0, a_x = 0, a_y = 0, a_z = 0, a_speedX = 0, a_speedY = 0, a_speedZ = 0,
         a_scale = 0\<rparr>))) = Vector3 (Fin (1 / 300)) (Fin (31 / 300)) (Fin 0) \<and>
   elapsedTime \<lparr>elapsedTime = 1, delta = 1 / 60\<rparr> =
     elapsedTime \<lparr>elapsedTime = 1, delta = 1 / 30\<rparr> \<and>
   bead_frame \<lparr>elapsedTime = 1, delta = 1 / 60\<rparr>
      \<lparr>rotationVal = Fin 2, isScattered = False, scatterIntensity = Fin 0\<rparr>
      (Vector3 (Fin 3.5) (Fin 0) (Fin 0)) (init_bead [sample_config]) =
   bead_frame \<lparr>elapsedTime = 1, delta = 1 / 30\<rparr>
      \<lparr>rotationVal = Fin 2, isScattered = False, scatterIntensity = Fin 0\<rparr>
      (Vector3 (Fin 3.5) (Fin 0) (Fin 0)) (init_bead [sample_config])"
  using delta_time_use [where st = "\<lparr>elapsedTime = 1, delta = 1 / 60\<rparr>"
      and st' = "\<lparr>elapsedTime = 1, delta = 1 / 30\<rparr>"
      and h = "\<lparr>distance = Fin 0.03, present = True\<rparr>"
      and s = "\<lparr>motion = \<lparr>rotationSpeed = Fin 2, scattered = False\<rparr>, container = Some (Fin 0)\<rparr>"
      and l = "init_floating (ambient_letter 0
        \<lparr>a_char = 0, a_x = 0, a_y = 0, a_z = 0, a_speedX = 0, a_speedY = 0, a_speedZ = 0,
         a_scale = 0\<rparr>)"
      and g = "Fin 2"
      and p = "\<lparr>rotationVal = Fin 2, isScattered = False, scatterIntensity = Fin 0\<rparr>"
      and w = "Vector3 (Fin 3.5) (Fin 0) (Fin 0)" and b = "init_bead [sample_config]"]
  by (simp add: init_floating_def mapper_frame_def lerp_Fin SCATTER_THRESHOLD_def
      PINCH_THRESHOLD_def)

section \<open>Bead letters\<close>

lemma jsnum_mult_assoc: "((a :: jsnum) * b) * c = a * (b * c)"
  by (cases a; cases b; cases c) simp_all

lemma vec_lerp_smooth: "vec_lerp p v f = vec_smooth p v f"
  by (simp add: vec_lerp_def vec_smooth_def smooth_def)

lemma length_letters_frame:
  "letters (fst (bead_frame st p w b)) ! i = letter_frame (elapsedTime st) p i (letters b ! i)"
  if "mounted b" "i < length (letters b)"
  using that by (simp add: bead_frame_def Let_def nth_enumerate_eq)

lemma scatter_target:
  "vn * (Fin 5 + js_sin (Fin t * Fin 2 + Fin (real i)) * Fin 2) * k =
   vn * ((Fin 5 + Fin 2 * js_sin (Fin 2 * Fin t + Fin (real i))) * k)"
proof -
  have "js_sin (Fin t * Fin 2 + Fin (real i)) * Fin 2 = Fin 2 * js_sin (Fin 2 * Fin t + Fin (real i))"
    by (simp add: mult.commute)
  then show ?thesis
    by (simp only: jsnum_mult_assoc)
qed

text \<open>
  C8. On every frame of a mounted bead, each letter takes one step of \<open>letter_frame\<close>
  at its index. When scattered, its position takes one smoothing step of factor 0.1
  toward the rest position plus the normalised rest position times
  \<open>(5 + 2 * sin (2 * time + index)) * intensity\<close>, with the intensity \<open>distance * 5\<close> when
  the hand is present and 0 otherwise, and its x and y rotations grow by 0.01. Otherwise
  its position takes one smoothing step of factor 0.15 toward the rest position, and its
  x and y rotations one of factor 0.1 toward the rest rotation.
\<close>

theorem letter_animation:
  "(mounted b \<and> i < length (letters b) \<longrightarrow>
      letters (fst (bead_frame st (bead_props h m) w b)) ! i =
        letter_frame (elapsedTime st) (bead_props h m) i (letters b ! i)) \<and>
   position (letter_frame t (bead_props h m) i c) =
     (if scattered m then
        vec_smooth (position c)
          (let rest = pos (config c);
               n = vec_normalize rest;
               intensity = (if present h then distance h * Fin 5 else Fin 0);
               k = (Fin 5 + Fin 2 * js_sin (Fin 2 * Fin t + Fin (real i))) * intensity
           in Vector3 (vx rest + vx n * k) (vy rest + vy n * k) (vz rest + vz n * k))
          (Fin 0.1)
      else vec_smooth (position c) (pos (config c)) (Fin 0.15)) \<and>
   rotation (letter_frame t (bead_props h m) i c) =
     (if scattered m then
        Vector3 (vx (rotation c) + Fin 0.01) (vy (rotation c) + Fin 0.01) (vz (rotation c))
      else
        Vector3 (smooth (vx (rotation c)) (vx (rot (config c))) (Fin 0.1))
          (smooth (vy (rotation c)) (vy (rot (config c))) (Fin 0.1)) (vz (rotation c)))"
proof (intro conjI impI)
  assume "mounted b \<and> i < length (letters b)"
  then show "letters (fst (bead_frame st (bead_props h m) w b)) ! i =
        letter_frame (elapsedTime st) (bead_props h m) i (letters b ! i)"
    by (simp add: length_letters_frame)
next
  show "position (letter_frame t (bead_props h m) i c) =
     (if scattered m then
        vec_smooth (position c)
          (let rest = pos (config c);
               n = vec_normalize rest;
               intensity = (if present h then distance h * Fin 5 else Fin 0);
               k = (Fin 5 + Fin 2 * js_sin (Fin 2 * Fin t + Fin (real i))) * intensity
           in Vector3 (vx rest + vx n * k) (vy rest + vy n * k) (vz rest + vz n * k))
          (Fin 0.1)
      else vec_smooth (position c) (pos (config c)) (Fin 0.15))"
    unfolding letter_frame_def Let_def vec_lerp_smooth scatter_target
    by (simp add: bead_props_def)
next
  show "rotation (letter_frame t (bead_props h m) i c) =
     (if scattered m then
        Vector3 (vx (rotation c) + Fin 0.01) (vy (rotation c) + Fin 0.01) (vz (rotation c))
      else
        Vector3 (smooth (vx (rotation c)) (vx (rot (config c))) (Fin 0.1))
          (smooth (vy (rotation c)) (vy (rot (config c))) (Fin 0.1)) (vz (rotation c)))"
    unfolding letter_frame_def Let_def lerp_smooth
    by (simp add: bead_props_def)
qed

theorem letter_animation_witness:
  "mounted (init_bead [sample_config]) \<and> 0 < length (letters (init_bead [sample_config])) \<and>
   letters (fst (bead_frame \<lparr>elapsedTime = 0, delta = 1 / 60\<rparr>
       (bead_props \<lparr>distance = Fin 0.1, present = True\<rparr> init_motion)
       (Vector3 (Fin 3.5) (Fin 0) (Fin 0)) (init_bead [sample_config]))) ! 0 =
     letter_frame 0 (bead_props \<lparr>distance = Fin 0.1, present = True\<rparr> init_motion) 0
       (letters (init_bead [sample_config]) ! 0) \<and>
   position (letter_frame 0 (bead_props \<lparr>distance = Fin 0.1, present = True\<rparr> init_motion) 0
       \<lparr>config = sample_config, position = Vector3 (Fin 1) (Fin 0) (Fin 0),
        rotation = Vector3 (Fin 0) (Fin 0) (Fin 0)\<rparr>) =
     Vector3 (Fin 0.94) (Fin 0) (Fin 0)"
  using letter_animation [where b = "init_bead [sample_config]" and i = 0
      and st = "\<lparr>elapsedTime = 0, delta = 1 / 60\<rparr>"
      and h = "\<lparr>distance = Fin 0.1, present = True\<rparr>" and m = init_motion
      and w = "Vector3 (Fin 3.5) (Fin 0) (Fin 0)" and t = 0
      and c = "\<lparr>config = sample_config, position = Vector3 (Fin 1) (Fin 0) (Fin 0),
        rotation = Vector3 (Fin 0) (Fin 0) (Fin 0)\<rparr>"]
  by (simp add: init_bead_def init_motion_def sample_config_def vec_smooth_def smooth_def)

section \<open>Scatter and reform\<close>





lemma vec_length_fin: "fin_vec v \<Longrightarrow> is_fin (vec_length v)"
proof (cases v)
  case (Vector3 a b c)
  assume "fin_vec v"
  then obtain x y z where "a = Fin x" "b = Fin y" "c = Fin z"
    using Vector3 by (cases a; cases b; cases c) simp_all
  moreover have "\<not> x * x + y * y + z * z < 0"
    by (simp add: not_less)
  ultimately show ?thesis
    using Vector3 by (simp add: vec_length_def)
qed













end
